theory Spec2Isabelle
  imports Complex_Main "HOL-Library.Word"
begin

section \<open>Numbers as the notebook has them\<close>

text \<open>
  The notebook \<^verbatim>\<open>Week1/original/ChiSquareTest/AnalyticalLinearFit_original.ipynb\<close> works on
  three kinds of numbers.

  \<^item> Python integers (\<^verbatim>\<open>Nexp\<close>, \<^verbatim>\<open>Npoints\<close>, \<^verbatim>\<open>Nvar\<close>, \<^verbatim>\<open>Ndof_calc\<close>, \<^verbatim>\<open>s = len(x)\<close>) are
    unbounded: type \<open>int\<close>.
  \<^item> \<^verbatim>\<open>x = np.arange(Npoints)+1\<close> is an array of NumPy's default integer, which is the
    signed 64-bit integer on the 64-bit Linux and macOS platforms (and everywhere from
    NumPy 2 on). So \<^verbatim>\<open>sx\<close>, \<^verbatim>\<open>sxx\<close> and \<^verbatim>\<open>Delta\<close> are 64-bit integers whose arithmetic
    wraps around: type \<open>64 word\<close>, read as two's complement by \<open>sint\<close>.
  \<^item> Everything else is a binary64 floating-point number. Rounding is not modelled: a
    finite float is a real number and the four operations and the square root are exact.
    What IEEE arithmetic does outside the reals is modelled: division by zero and the
    square root of a negative number raise nothing in NumPy, they give the infinities and
    NaN, which then propagate. Zero has no sign here (a zero divisor counts as \<open>+0\<close>, which
    is what the integer \<^verbatim>\<open>Delta\<close> converts to).
\<close>

type_synonym i64 = "64 word"

datatype flt = Fin real | PInf | NInf | NaN

fun fl_neg :: "flt \<Rightarrow> flt" where
  "fl_neg (Fin a) = Fin (- a)"
| "fl_neg PInf = NInf"
| "fl_neg NInf = PInf"
| "fl_neg NaN = NaN"

fun fl_add :: "flt \<Rightarrow> flt \<Rightarrow> flt" where
  "fl_add (Fin a) (Fin b) = Fin (a + b)"
| "fl_add NaN _ = NaN"
| "fl_add _ NaN = NaN"
| "fl_add PInf NInf = NaN"
| "fl_add NInf PInf = NaN"
| "fl_add PInf _ = PInf"
| "fl_add _ PInf = PInf"
| "fl_add NInf _ = NInf"
| "fl_add _ NInf = NInf"

definition fl_sub :: "flt \<Rightarrow> flt \<Rightarrow> flt" where
  "fl_sub a b = fl_add a (fl_neg b)"

text \<open>An infinity times a finite number: the sign of the product, NaN at zero.\<close>

definition inf_times :: "flt \<Rightarrow> real \<Rightarrow> flt" where
  "inf_times i b = (if b = 0 then NaN else if 0 < b then i else fl_neg i)"

fun fl_mul :: "flt \<Rightarrow> flt \<Rightarrow> flt" where
  "fl_mul (Fin a) (Fin b) = Fin (a * b)"
| "fl_mul NaN _ = NaN"
| "fl_mul _ NaN = NaN"
| "fl_mul PInf (Fin b) = inf_times PInf b"
| "fl_mul NInf (Fin b) = inf_times NInf b"
| "fl_mul (Fin a) PInf = inf_times PInf a"
| "fl_mul (Fin a) NInf = inf_times NInf a"
| "fl_mul PInf PInf = PInf"
| "fl_mul NInf NInf = PInf"
| "fl_mul PInf NInf = NInf"
| "fl_mul NInf PInf = NInf"

fun fl_div :: "flt \<Rightarrow> flt \<Rightarrow> flt" where
  "fl_div (Fin a) (Fin b) =
     (if b \<noteq> 0 then Fin (a / b)
      else if 0 < a then PInf else if a < 0 then NInf else NaN)"
| "fl_div NaN _ = NaN"
| "fl_div _ NaN = NaN"
| "fl_div (Fin a) PInf = Fin 0"
| "fl_div (Fin a) NInf = Fin 0"
| "fl_div PInf (Fin b) = (if 0 \<le> b then PInf else NInf)"
| "fl_div NInf (Fin b) = (if 0 \<le> b then NInf else PInf)"
| "fl_div PInf PInf = NaN"
| "fl_div PInf NInf = NaN"
| "fl_div NInf PInf = NaN"
| "fl_div NInf NInf = NaN"

fun fl_sqrt :: "flt \<Rightarrow> flt" where
  "fl_sqrt (Fin a) = (if 0 \<le> a then Fin (sqrt a) else NaN)"
| "fl_sqrt PInf = PInf"
| "fl_sqrt NInf = NaN"
| "fl_sqrt NaN = NaN"

text \<open>\<^verbatim>\<open>v**2\<close> on a float.\<close>

definition fl_sq :: "flt \<Rightarrow> flt" where
  "fl_sq a = fl_mul a a"

fun is_finite :: "flt \<Rightarrow> bool" where
  "is_finite (Fin a) = True"
| "is_finite _ = False"

text \<open>A 64-bit integer converted to a float, as NumPy does when it meets one.\<close>

definition to_float :: "i64 \<Rightarrow> real" where
  "to_float w = real_of_int (sint w)"

section \<open>The NumPy operations the notebook calls\<close>

datatype py_error = ValueError | IndexError

text \<open>\<^verbatim>\<open>np.arange(Npoints)+1\<close>: the integers \<open>1..Npoints\<close>; empty when \<open>Npoints \<le> 0\<close>.\<close>

definition arange1 :: "int \<Rightarrow> i64 list" where
  "arange1 n = map (\<lambda>i. word_of_nat i + 1) [0..<nat n]"

text \<open>\<^verbatim>\<open>np.sum\<close> of an integer array stays in 64 bits; of a float array it is a float.\<close>

definition np_sum_int :: "i64 list \<Rightarrow> i64" where
  "np_sum_int xs = sum_list xs"

definition np_sum :: "real list \<Rightarrow> real" where
  "np_sum ys = sum_list ys"

text \<open>\<^verbatim>\<open>x**2\<close> on the integer array.\<close>

definition np_square_int :: "i64 list \<Rightarrow> i64 list" where
  "np_square_int xs = map (\<lambda>a. a * a) xs"

text \<open>
  \<^verbatim>\<open>x*y\<close>, integer array times float array: elementwise, an array of length one is
  broadcast, any other mismatch of the lengths raises \<^verbatim>\<open>ValueError\<close>.
\<close>

definition np_mul :: "i64 list \<Rightarrow> real list \<Rightarrow> py_error + real list" where
  "np_mul x y =
     (if length x = length y then Inr (map2 (\<lambda>a b. to_float a * b) x y)
      else if length x = 1 then Inr (map (\<lambda>b. to_float (hd x) * b) y)
      else if length y = 1 then Inr (map (\<lambda>a. to_float a * hd y) x)
      else Inl ValueError)"

text \<open>Reading \<^verbatim>\<open>a[i]\<close> with \<open>i \<ge> 0\<close>: \<^verbatim>\<open>IndexError\<close> past the end.\<close>

definition np_get :: "'a list \<Rightarrow> nat \<Rightarrow> py_error + 'a" where
  "np_get a i = (if i < length a then Inr (a ! i) else Inl IndexError)"

section \<open>Analytical linear fit\<close>

text \<open>
  The body of the loop between \<^verbatim>\<open>s = len(x)\<close> and \<^verbatim>\<open>sigma_alpha1_calc\<close>, as a function of
  the arrays \<open>x\<close>, \<open>y\<close> and of \<^verbatim>\<open>sigmay\<close>. \<^verbatim>\<open>sxx * s\<close> and \<^verbatim>\<open>sx**2\<close> are 64-bit products;
  \<^verbatim>\<open>sy * sxx\<close>, \<^verbatim>\<open>sxy * sx\<close>, \<^verbatim>\<open>sxy * s\<close> and \<^verbatim>\<open>sy * sx\<close> are float products; both
  \<^verbatim>\<open>/ Delta\<close> and \<^verbatim>\<open>sxx / Delta\<close>, \<^verbatim>\<open>s / Delta\<close> are float divisions.
\<close>

record linear_fit =
  Delta :: i64
  alpha0_calc :: flt
  alpha1_calc :: flt
  sigma_alpha0_calc :: flt
  sigma_alpha1_calc :: flt

definition analytical_fit :: "i64 list \<Rightarrow> real list \<Rightarrow> real \<Rightarrow> py_error + linear_fit" where
  "analytical_fit x y sigmay =
     (let s = length x;
          sx = np_sum_int x;
          sxx = np_sum_int (np_square_int x);
          sy = np_sum y
      in case np_mul x y of
           Inl e \<Rightarrow> Inl e
         | Inr xy \<Rightarrow>
             let sxy = np_sum xy;
                 D = sxx * word_of_nat s - sx * sx
             in Inr \<lparr> Delta = D,
                      alpha0_calc = fl_div (Fin (sy * to_float sxx - sxy * to_float sx))
                                           (Fin (to_float D)),
                      alpha1_calc = fl_div (Fin (sxy * real s - sy * to_float sx))
                                           (Fin (to_float D)),
                      sigma_alpha0_calc =
                         fl_mul (Fin sigmay) (fl_sqrt (fl_div (Fin (to_float sxx)) (Fin (to_float D)))),
                      sigma_alpha1_calc =
                         fl_mul (Fin sigmay) (fl_sqrt (fl_div (Fin (real s)) (Fin (to_float D)))) \<rparr>)"

section \<open>Goodness of fit\<close>

text \<open>Errors propagate as a Python exception does: the first one ends the computation.\<close>

definition seq :: "py_error + 'a \<Rightarrow> ('a \<Rightarrow> py_error + 'b) \<Rightarrow> py_error + 'b" where
  "seq m f = (case m of Inl e \<Rightarrow> Inl e | Inr v \<Rightarrow> f v)"

text \<open>
  The loop \<^verbatim>\<open>for i in range(Npoints)\<close> that accumulates \<^verbatim>\<open>Chi2_calc\<close>, over the list of
  indices still to visit. Each pass reads \<^verbatim>\<open>x[i]\<close>, \<^verbatim>\<open>y[i]\<close> and \<^verbatim>\<open>ey[i]\<close>.
\<close>

fun chi2_loop ::
  "i64 list \<Rightarrow> real list \<Rightarrow> real list \<Rightarrow> flt \<Rightarrow> flt \<Rightarrow> nat list \<Rightarrow> flt \<Rightarrow> py_error + flt" where
  "chi2_loop x y ey a0 a1 [] Chi2 = Inr Chi2"
| "chi2_loop x y ey a0 a1 (i # rest) Chi2 =
     seq (np_get x i) (\<lambda>xi.
       let fit_value = fl_add a0 (fl_mul a1 (Fin (to_float xi))) in
       seq (np_get y i) (\<lambda>yi.
       seq (np_get ey i) (\<lambda>eyi.
         chi2_loop x y ey a0 a1 rest
           (fl_add Chi2 (fl_sq (fl_div (fl_sub (Fin yi) fit_value) (Fin eyi)))))))"

record gof =
  Chi2_calc :: flt
  Ndof_calc :: int
  Prob_calc :: flt

text \<open>
  \<^verbatim>\<open>stats.chi2.sf\<close> is SciPy's; it is the parameter \<open>sf\<close> here, a function of the
  chi-square value and of the number of degrees of freedom.
\<close>

definition goodness_of_fit ::
  "(flt \<Rightarrow> int \<Rightarrow> flt) \<Rightarrow> i64 list \<Rightarrow> real list \<Rightarrow> real list \<Rightarrow> flt \<Rightarrow> flt \<Rightarrow> int
     \<Rightarrow> py_error + gof" where
  "goodness_of_fit sf x y ey a0 a1 npoints =
     seq (chi2_loop x y ey a0 a1 [0..<nat npoints] (Fin 0)) (\<lambda>Chi2.
       let Nvar = 2;
           Ndof = npoints - Nvar
       in Inr \<lparr> Chi2_calc = Chi2, Ndof_calc = Ndof, Prob_calc = sf Chi2 Ndof \<rparr>)"

section \<open>Generating the data\<close>

text \<open>
  The random generator \<^verbatim>\<open>r = np.random\<close> is global state, seeded once by \<^verbatim>\<open>r.seed(42)\<close>.
  Here its state is a value of any type \<open>'s\<close>, passed along, and \<open>gauss\<close> is one standard
  normal draw: it returns the number drawn and the next state.
  \<^verbatim>\<open>r.normal(loc, scale, size)\<close> makes \<^verbatim>\<open>size\<close> draws in order, each \<open>loc + scale * g\<close>; it
  raises \<^verbatim>\<open>ValueError\<close> on a negative scale and on a negative size.
\<close>

fun normal_fill :: "('s \<Rightarrow> real \<times> 's) \<Rightarrow> real \<Rightarrow> real \<Rightarrow> nat \<Rightarrow> 's \<Rightarrow> real list \<times> 's" where
  "normal_fill gauss loc scale 0 st = ([], st)"
| "normal_fill gauss loc scale (Suc n) st =
     (let (g, st1) = gauss st;
          (rest, st2) = normal_fill gauss loc scale n st1
      in ((loc + scale * g) # rest, st2))"

definition r_normal ::
  "('s \<Rightarrow> real \<times> 's) \<Rightarrow> real \<Rightarrow> real \<Rightarrow> int \<Rightarrow> 's \<Rightarrow> py_error + (real list \<times> 's)" where
  "r_normal gauss loc scale count st =
     (if scale < 0 \<or> count < 0 then Inl ValueError
      else Inr (normal_fill gauss loc scale (nat count) st))"

record settings =
  Nexp :: int
  Npoints :: int
  alpha0 :: real
  alpha1 :: real
  sigmay :: real

text \<open>
  The first four lines of the loop body: \<open>x\<close>, \<open>y\<close> and \<open>ey\<close> (\<^verbatim>\<open>ex\<close> is used nowhere).
  \<open>x\<close> and the noise have the same length, so the sum is elementwise.
\<close>

definition sample_generator ::
  "('s \<Rightarrow> real \<times> 's) \<Rightarrow> settings \<Rightarrow> 's
     \<Rightarrow> py_error + ((i64 list \<times> real list \<times> real list) \<times> 's)" where
  "sample_generator gauss cfg st =
     (let x = arange1 (Npoints cfg) in
      seq (r_normal gauss 0 (sigmay cfg) (Npoints cfg) st) (\<lambda>(noise, st1).
        let y = map2 (\<lambda>xi e. alpha0 cfg + alpha1 cfg * to_float xi + e) x noise;
            ey = map (\<lambda>xi. sigmay cfg * 1) x
        in Inr ((x, y, ey), st1)))"

section \<open>Repeating the experiment\<close>

text \<open>
  The four result arrays, and the part of each printed line that comes from the
  analytical fit (the line is printed for \<^verbatim>\<open>iexp < 10\<close>; its other half reports the
  numerical fit by Minuit, an external minimiser that writes to none of the arrays and is
  left out here).
\<close>

record report_line =
  rep_a0 :: flt
  rep_sigma_a0 :: flt
  rep_a1 :: flt
  rep_sigma_a1 :: flt
  rep_p :: flt

record batch =
  array_alpha0 :: "flt list"
  array_alpha1 :: "flt list"
  array_Chi2 :: "flt list"
  array_Prob :: "flt list"
  printed :: "report_line list"

text \<open>Writing \<^verbatim>\<open>a[i] = v\<close> with \<open>i \<ge> 0\<close>.\<close>

definition np_set :: "'a list \<Rightarrow> nat \<Rightarrow> 'a \<Rightarrow> py_error + 'a list" where
  "np_set a i v = (if i < length a then Inr (a[i := v]) else Inl IndexError)"

text \<open>One pass of \<^verbatim>\<open>for iexp in range(Nexp)\<close>.\<close>

definition one_experiment ::
  "('s \<Rightarrow> real \<times> 's) \<Rightarrow> (flt \<Rightarrow> int \<Rightarrow> flt) \<Rightarrow> settings \<Rightarrow> nat \<Rightarrow> batch \<times> 's
     \<Rightarrow> py_error + (batch \<times> 's)" where
  "one_experiment gauss sf cfg iexp bst =
     (case bst of (b, st) \<Rightarrow>
      seq (sample_generator gauss cfg st) (\<lambda>((x, y, ey), st1).
      seq (analytical_fit x y (sigmay cfg)) (\<lambda>fit.
      seq (goodness_of_fit sf x y ey (alpha0_calc fit) (alpha1_calc fit) (Npoints cfg)) (\<lambda>g.
      seq (np_set (array_alpha0 b) iexp (alpha0_calc fit)) (\<lambda>arr0.
      seq (np_set (array_alpha1 b) iexp (alpha1_calc fit)) (\<lambda>arr1.
      seq (np_set (array_Chi2 b) iexp (Chi2_calc g)) (\<lambda>arrC.
      seq (np_set (array_Prob b) iexp (Prob_calc g)) (\<lambda>arrP.
        Inr (\<lparr> array_alpha0 = arr0, array_alpha1 = arr1, array_Chi2 = arrC, array_Prob = arrP,
                printed =
                  (if iexp < 10
                   then printed b @ [\<lparr> rep_a0 = alpha0_calc fit,
                                        rep_sigma_a0 = sigma_alpha0_calc fit,
                                        rep_a1 = alpha1_calc fit,
                                        rep_sigma_a1 = sigma_alpha1_calc fit,
                                        rep_p = Prob_calc g \<rparr>]
                   else printed b) \<rparr>, st1)))))))))"

fun experiment_loop ::
  "('s \<Rightarrow> real \<times> 's) \<Rightarrow> (flt \<Rightarrow> int \<Rightarrow> flt) \<Rightarrow> settings \<Rightarrow> nat list \<Rightarrow> batch \<times> 's
     \<Rightarrow> py_error + (batch \<times> 's)" where
  "experiment_loop gauss sf cfg [] bst = Inr bst"
| "experiment_loop gauss sf cfg (iexp # rest) bst =
     seq (one_experiment gauss sf cfg iexp bst) (experiment_loop gauss sf cfg rest)"

text \<open>
  The whole cell: \<^verbatim>\<open>np.zeros(Nexp)\<close> four times (\<^verbatim>\<open>ValueError\<close> on a negative \<^verbatim>\<open>Nexp\<close>),
  then the loop, from the generator state \<open>st\<close>.
\<close>

definition experiment_repeater ::
  "('s \<Rightarrow> real \<times> 's) \<Rightarrow> (flt \<Rightarrow> int \<Rightarrow> flt) \<Rightarrow> settings \<Rightarrow> 's \<Rightarrow> py_error + (batch \<times> 's)" where
  "experiment_repeater gauss sf cfg st =
     (if Nexp cfg < 0 then Inl ValueError
      else let zeros = replicate (nat (Nexp cfg)) (Fin 0) in
        experiment_loop gauss sf cfg [0..<nat (Nexp cfg)]
          (\<lparr> array_alpha0 = zeros, array_alpha1 = zeros, array_Chi2 = zeros,
              array_Prob = zeros, printed = [] \<rparr>, st))"

section \<open>Reference quantities\<close>

text \<open>
  What the specification says the fit computes, written over the reals from its formulas:
  \<open>S = N\<close>, \<open>Sx = \<Sum>x\<^sub>i\<close>, \<open>Sxx = \<Sum>x\<^sub>i\<^sup>2\<close>, \<open>Sy = \<Sum>y\<^sub>i\<close>, \<open>Sxy = \<Sum>x\<^sub>i y\<^sub>i\<close>,
  \<open>\<Delta> = Sxx S - Sx\<^sup>2\<close>, and the four results. It is compared with \<open>analytical_fit\<close> below.
\<close>

record closed_form =
  cf_Delta :: real
  cf_alpha0 :: real
  cf_alpha1 :: real
  cf_sigma_alpha0 :: real
  cf_sigma_alpha1 :: real

definition closed_form_fit :: "real list \<Rightarrow> real list \<Rightarrow> real \<Rightarrow> closed_form" where
  "closed_form_fit xs ys sg =
     (let S = real (length xs);
          Sx = sum_list xs;
          Sxx = sum_list (map (\<lambda>v. v\<^sup>2) xs);
          Sy = sum_list ys;
          Sxy = sum_list (map2 (\<lambda>v w. v * w) xs ys);
          D = Sxx * S - Sx\<^sup>2
      in \<lparr> cf_Delta = D,
           cf_alpha0 = (Sy * Sxx - Sxy * Sx) / D,
           cf_alpha1 = (Sxy * S - Sy * Sx) / D,
           cf_sigma_alpha0 = sg * sqrt (Sxx / D),
           cf_sigma_alpha1 = sg * sqrt (S / D) \<rparr>)"

text \<open>The abscissas \<open>1, \<dots>, N\<close> as reals, and the objective the fit is to minimise.\<close>

definition grid :: "nat \<Rightarrow> real list" where
  "grid n = map (\<lambda>i. real (Suc i)) [0..<n]"

definition objective :: "real list \<Rightarrow> real list \<Rightarrow> real \<Rightarrow> real \<Rightarrow> real \<Rightarrow> real" where
  "objective xs ys sg a0 a1 = sum_list (map2 (\<lambda>v w. ((w - a0 - a1 * v) / sg)\<^sup>2) xs ys)"

text \<open>
  The sums over the abscissas \<open>1, \<dots>, n\<close> in the natural numbers, and the discriminant they
  give in the integers, where nothing wraps.
\<close>

definition tri :: "nat \<Rightarrow> nat" where
  "tri n = sum_list (map Suc [0..<n])"

definition pyr :: "nat \<Rightarrow> nat" where
  "pyr n = sum_list (map (\<lambda>i. Suc i * Suc i) [0..<n])"

definition disc :: "nat \<Rightarrow> int" where
  "disc n = int (pyr n) * int n - int (tri n) * int (tri n)"

text \<open>
  The standard normal numbers a generator yields from a state, in order, and the state it
  is left in.
\<close>

fun draws :: "('s \<Rightarrow> real \<times> 's) \<Rightarrow> 's \<Rightarrow> nat \<Rightarrow> real list" where
  "draws gauss st 0 = []"
| "draws gauss st (Suc n) = fst (gauss st) # draws gauss (snd (gauss st)) n"

fun advance :: "('s \<Rightarrow> real \<times> 's) \<Rightarrow> 's \<Rightarrow> nat \<Rightarrow> 's" where
  "advance gauss st 0 = st"
| "advance gauss st (Suc n) = advance gauss (snd (gauss st)) n"

section \<open>Stand-ins for the external functions\<close>

text \<open>
  Concrete runs need some generator and some survival function. These two are used in
  examples only, never in a general statement. \<open>cyclic_gauss\<close> yields \<open>-1, 0, 1, -1, \<dots>\<close>
  from state \<open>0\<close>. \<open>sf_stub\<close> is NaN outside the domain of the chi-square distribution
  (\<open>k \<le> 0\<close>, or a NaN argument), as SciPy's function is, \<open>1\<close> at \<open>\<chi>\<^sup>2 \<le> 0\<close>, and
  \<open>exp (- \<chi>\<^sup>2 / 2)\<close> elsewhere (the exact value for \<open>k = 2\<close>).
\<close>

definition cyclic_gauss :: "nat \<Rightarrow> real \<times> nat" where
  "cyclic_gauss st = (real (st mod 3) - 1, Suc st)"

definition sf_stub :: "flt \<Rightarrow> int \<Rightarrow> flt" where
  "sf_stub c k =
     (if k \<le> 0 then NaN
      else case c of
             Fin v \<Rightarrow> if v \<le> 0 then Fin 1 else Fin (exp (- v / 2))
           | PInf \<Rightarrow> Fin 0
           | NInf \<Rightarrow> Fin 1
           | NaN \<Rightarrow> NaN)"

section \<open>Basic facts\<close>

lemma seq_Inr [simp]: "seq (Inr v) f = f v"
  by (simp add: seq_def)

lemma seq_Inl [simp]: "seq (Inl e) f = Inl e"
  by (simp add: seq_def)

lemma fl_sub_Fin [simp]: "fl_sub (Fin a) (Fin b) = Fin (a - b)"
  by (simp add: fl_sub_def)

lemma fl_sq_Fin [simp]: "fl_sq (Fin a) = Fin (a\<^sup>2)"
  by (simp add: fl_sq_def power2_eq_square)

lemma fl_div_zero: "\<not> is_finite (fl_div (Fin a) (Fin 0))"
  by simp

lemma fl_sqrt_nonfinite: "\<not> is_finite v \<Longrightarrow> \<not> is_finite (fl_sqrt v)"
  by (cases v) simp_all

lemma fl_mul_nonfinite: "\<not> is_finite v \<Longrightarrow> \<not> is_finite (fl_mul (Fin a) v)"
  by (cases v) (simp_all add: inf_times_def)

text \<open>The loop over the points raises nothing when every index is inside the three arrays.\<close>

lemma chi2_loop_total:
  "\<forall>i\<in>set js. i < length x \<and> i < length y \<and> i < length ey \<Longrightarrow>
   \<exists>c. chi2_loop x y ey a0 a1 js c0 = Inr c"
  by (induction js arbitrary: c0) (simp_all add: np_get_def Let_def)

text \<open>With finite parameters and no zero uncertainty it adds up the squared pulls.\<close>

lemma chi2_loop_Fin:
  "\<forall>i\<in>set js. i < length x \<and> i < length y \<and> i < length ey \<and> ey ! i \<noteq> 0 \<Longrightarrow>
   chi2_loop x y ey (Fin a0) (Fin a1) js (Fin c0) =
     Inr (Fin (c0 + sum_list (map (\<lambda>i. ((y ! i - (a0 + a1 * to_float (x ! i))) / ey ! i)\<^sup>2) js)))"
  by (induction js arbitrary: c0) (simp_all add: np_get_def Let_def add.assoc)

section \<open>A singular design\<close>

text \<open>When all abscissas are the same number, the \<open>Delta\<close> of the fit is zero.\<close>

lemma identical_abscissas_Delta_zero:
  "analytical_fit (replicate n c) y sg = Inr f \<Longrightarrow> Delta f = 0"
  by (auto simp add: analytical_fit_def Let_def np_sum_int_def np_square_int_def
      sum_list_replicate algebra_simps split: sum.splits)

text \<open>
  Claim C3 says that a dataset whose \<open>\<Delta>\<close> is zero makes the fit fail with a
  DegenerateDesign error. The notebook has no such check, and NumPy's division by zero
  raises nothing. What holds instead: on arrays of equal length the fit raises no error,
  and when the \<open>Delta\<close> it computes is zero, the two parameters and the two uncertainties
  it returns are all non-finite (NaN or an infinity).
\<close>

theorem degenerate_design_not_raised:
  "length y = length x \<Longrightarrow>
   \<exists>f. analytical_fit x y sg = Inr f \<and>
       (Delta f = 0 \<longrightarrow>
          \<not> is_finite (alpha0_calc f) \<and> \<not> is_finite (alpha1_calc f) \<and>
          \<not> is_finite (sigma_alpha0_calc f) \<and> \<not> is_finite (sigma_alpha1_calc f))"
  by (simp add: analytical_fit_def np_mul_def Let_def to_float_def
      fl_sqrt_nonfinite fl_mul_nonfinite fl_div_zero
      del: fl_div.simps fl_mul.simps fl_sqrt.simps)

theorem degenerate_design_not_raised_witness:
  "length [1 :: real, 2] = length [7 :: i64, 7] \<and>
   (\<exists>f. analytical_fit [7, 7] [1, 2] 2 = Inr f \<and> Delta f = 0 \<and>
        \<not> is_finite (alpha0_calc f) \<and> \<not> is_finite (alpha1_calc f) \<and>
        \<not> is_finite (sigma_alpha0_calc f) \<and> \<not> is_finite (sigma_alpha1_calc f))"
proof -
  have len: "length [1 :: real, 2] = length [7 :: i64, 7]"
    by simp
  from degenerate_design_not_raised [OF len, of 2] obtain f where
    f: "analytical_fit [7, 7] [1, 2] 2 = Inr f" and
    nf: "Delta f = 0 \<longrightarrow>
          \<not> is_finite (alpha0_calc f) \<and> \<not> is_finite (alpha1_calc f) \<and>
          \<not> is_finite (sigma_alpha0_calc f) \<and> \<not> is_finite (sigma_alpha1_calc f)"
    by blast
  from f have "Delta f = 0"
    by (auto simp add: analytical_fit_def np_mul_def np_sum_int_def np_square_int_def Let_def)
  with f nf len show ?thesis
    by blast
qed

text \<open>Three points at \<open>x = 5\<close>: NaN parameters and infinite uncertainties, no error.\<close>

lemma three_identical_abscissas:
  "analytical_fit [5, 5, 5] [1, 2, 3] 1 =
     Inr \<lparr> Delta = 0, alpha0_calc = NaN, alpha1_calc = NaN,
           sigma_alpha0_calc = PInf, sigma_alpha1_calc = PInf \<rparr>"
  by (simp add: analytical_fit_def np_mul_def np_sum_def np_sum_int_def np_square_int_def
      to_float_def inf_times_def)

text \<open>
  The notebook itself meets a zero \<open>Delta\<close> with \<^verbatim>\<open>Npoints = 1\<close>. The run below, of one
  experiment with one point, goes through: the fit returns NaN and infinities, the
  chi-square and the probability computed from them are NaN, and these values are stored
  and printed.
\<close>

lemma sample_cyclic_1:
  "sample_generator cyclic_gauss \<lparr> Nexp = 1, Npoints = 1, alpha0 = 1, alpha1 = 2, sigmay = 1 \<rparr> 0 =
     Inr (([1], [2], [1]), 1)"
  by code_simp

lemma fit_one_point:
  "analytical_fit [1] [2] 1 =
     Inr \<lparr> Delta = 0, alpha0_calc = NaN, alpha1_calc = NaN,
           sigma_alpha0_calc = PInf, sigma_alpha1_calc = PInf \<rparr>"
  by (simp add: analytical_fit_def np_mul_def np_sum_def np_sum_int_def np_square_int_def
      to_float_def inf_times_def)

lemma gof_one_point:
  "goodness_of_fit sf_stub [1] [2] [1] NaN NaN 1 =
     Inr \<lparr> Chi2_calc = NaN, Ndof_calc = - 1, Prob_calc = NaN \<rparr>"
  by (simp add: goodness_of_fit_def np_get_def to_float_def sf_stub_def fl_sub_def fl_sq_def)

theorem degenerate_design_counterexample:
  "analytical_fit [1] [2] 1 =
     Inr \<lparr> Delta = 0, alpha0_calc = NaN, alpha1_calc = NaN,
           sigma_alpha0_calc = PInf, sigma_alpha1_calc = PInf \<rparr> \<and>
   experiment_repeater cyclic_gauss sf_stub
     \<lparr> Nexp = 1, Npoints = 1, alpha0 = 1, alpha1 = 2, sigmay = 1 \<rparr> 0 =
   Inr (\<lparr> array_alpha0 = [NaN], array_alpha1 = [NaN], array_Chi2 = [NaN], array_Prob = [NaN],
          printed = [\<lparr> rep_a0 = NaN, rep_sigma_a0 = PInf, rep_a1 = NaN, rep_sigma_a1 = PInf,
                       rep_p = NaN \<rparr>] \<rparr>, 1)"
  by (simp add: experiment_repeater_def one_experiment_def sample_cyclic_1 fit_one_point
      gof_one_point np_set_def)

section \<open>Too few points\<close>

lemma goodness_of_fit_total:
  "length x = nat npoints \<Longrightarrow> length y = nat npoints \<Longrightarrow> length ey = nat npoints \<Longrightarrow>
   \<exists>c. goodness_of_fit sf x y ey a0 a1 npoints =
          Inr \<lparr> Chi2_calc = c, Ndof_calc = npoints - 2, Prob_calc = sf c (npoints - 2) \<rparr>"
proof -
  assume "length x = nat npoints" "length y = nat npoints" "length ey = nat npoints"
  then have "\<forall>i\<in>set [0..<nat npoints]. i < length x \<and> i < length y \<and> i < length ey"
    by simp
  from chi2_loop_total [OF this] obtain c where
    "chi2_loop x y ey a0 a1 [0..<nat npoints] (Fin 0) = Inr c"
    by blast
  then show ?thesis
    by (simp add: goodness_of_fit_def Let_def)
qed

text \<open>
  Claim C4 says that with \<open>N \<le> 2\<close> points the evaluation fails with an
  InsufficientDegreesOfFreedom error. The notebook has no such check either. What holds
  instead: on three arrays of \<open>N \<le> 2\<close> points the evaluation raises no error; it returns
  \<open>Ndof_calc = N - 2\<close>, which is zero or negative, and as \<open>Prob_calc\<close> whatever the survival
  function gives at this number of degrees of freedom.
\<close>

theorem insufficient_dof_not_raised:
  "length x = nat npoints \<Longrightarrow> length y = nat npoints \<Longrightarrow> length ey = nat npoints \<Longrightarrow>
   npoints \<le> 2 \<Longrightarrow>
   \<exists>c. goodness_of_fit sf x y ey a0 a1 npoints =
          Inr \<lparr> Chi2_calc = c, Ndof_calc = npoints - 2, Prob_calc = sf c (npoints - 2) \<rparr> \<and>
       npoints - 2 \<le> 0"
  using goodness_of_fit_total [of x npoints y ey sf a0 a1] by simp

theorem insufficient_dof_not_raised_witness:
  "length [1 :: i64] = nat 1 \<and> length [4 :: real] = nat 1 \<and> length [2 :: real] = nat 1 \<and>
   (1 :: int) \<le> 2 \<and>
   (\<exists>c. goodness_of_fit sf_stub [1] [4] [2] (Fin 3) (Fin 0) 1 =
          Inr \<lparr> Chi2_calc = c, Ndof_calc = - 1, Prob_calc = NaN \<rparr>)"
proof -
  have "\<exists>c. goodness_of_fit sf_stub [1] [4] [2] (Fin 3) (Fin 0) 1 =
          Inr \<lparr> Chi2_calc = c, Ndof_calc = 1 - 2, Prob_calc = sf_stub c (1 - 2) \<rparr> \<and>
       (1 :: int) - 2 \<le> 0"
    by (rule insufficient_dof_not_raised) simp_all
  then show ?thesis
    by (simp add: sf_stub_def)
qed

text \<open>
  A run of one experiment with two points, \<open>(1, 2)\<close> and \<open>(2, 5)\<close>: the fit finds the line
  \<open>- 1 + 3 x\<close> through them, and the evaluation returns a result, with a chi-square of zero
  and no degree of freedom; the run stores and prints it.
\<close>

lemma sample_cyclic_2:
  "sample_generator cyclic_gauss \<lparr> Nexp = 1, Npoints = 2, alpha0 = 1, alpha1 = 2, sigmay = 1 \<rparr> 0 =
     Inr (([1, 2], [2, 5], [1, 1]), 2)"
  by code_simp

lemma fit_two_points:
  "analytical_fit [1, 2] [2, 5] 1 =
     Inr \<lparr> Delta = 1, alpha0_calc = Fin (- 1), alpha1_calc = Fin 3,
           sigma_alpha0_calc = Fin (sqrt 5), sigma_alpha1_calc = Fin (sqrt 2) \<rparr>"
  by (simp add: analytical_fit_def np_mul_def np_sum_def np_sum_int_def np_square_int_def
      to_float_def)

lemma gof_two_points:
  "goodness_of_fit sf_stub [1, 2] [2, 5] [1, 1] (Fin (- 1)) (Fin 3) 2 =
     Inr \<lparr> Chi2_calc = Fin 0, Ndof_calc = 0, Prob_calc = NaN \<rparr>"
  by (simp add: goodness_of_fit_def np_get_def to_float_def sf_stub_def upt_rec nat_numeral)

theorem insufficient_dof_counterexample:
  "goodness_of_fit sf_stub [1, 2] [2, 5] [1, 1] (Fin (- 1)) (Fin 3) 2 =
     Inr \<lparr> Chi2_calc = Fin 0, Ndof_calc = 0, Prob_calc = NaN \<rparr> \<and>
   experiment_repeater cyclic_gauss sf_stub
     \<lparr> Nexp = 1, Npoints = 2, alpha0 = 1, alpha1 = 2, sigmay = 1 \<rparr> 0 =
   Inr (\<lparr> array_alpha0 = [Fin (- 1)], array_alpha1 = [Fin 3], array_Chi2 = [Fin 0],
          array_Prob = [NaN],
          printed = [\<lparr> rep_a0 = Fin (- 1), rep_sigma_a0 = Fin (sqrt 5), rep_a1 = Fin 3,
                       rep_sigma_a1 = Fin (sqrt 2), rep_p = NaN \<rparr>] \<rparr>, 2)"
  by (simp add: experiment_repeater_def one_experiment_def sample_cyclic_2 fit_two_points
      gof_two_points np_set_def)

section \<open>The generator and its draws\<close>

lemma normal_fill_draws:
  "normal_fill gauss loc scale n st =
     (map (\<lambda>d. loc + scale * d) (draws gauss st n), advance gauss st n)"
  by (induction n arbitrary: st) (simp_all add: case_prod_beta)

lemma length_draws [simp]: "length (draws gauss st n) = n"
  by (induction n arbitrary: st) simp_all

lemma draws_add:
  "draws gauss st (m + n) = draws gauss st m @ draws gauss (advance gauss st m) n"
  by (induction m arbitrary: st) simp_all

lemma length_arange1 [simp]: "length (arange1 n) = nat n"
  by (simp add: arange1_def)

lemma sample_generator_draws:
  "sample_generator gauss cfg st =
     (if sigmay cfg < 0 \<or> Npoints cfg < 0 then Inl ValueError
      else Inr ((arange1 (Npoints cfg),
                 map2 (\<lambda>xi e. alpha0 cfg + alpha1 cfg * to_float xi + e) (arange1 (Npoints cfg))
                   (map (\<lambda>d. 0 + sigmay cfg * d) (draws gauss st (nat (Npoints cfg)))),
                 map (\<lambda>xi. sigmay cfg * 1) (arange1 (Npoints cfg))),
                advance gauss st (nat (Npoints cfg))))"
  by (simp add: sample_generator_def r_normal_def normal_fill_draws Let_def)

lemma sample_generator_lengths:
  "sample_generator gauss cfg st = Inr ((x, y, ey), st1) \<Longrightarrow>
   0 \<le> Npoints cfg \<and> length x = nat (Npoints cfg) \<and> length y = nat (Npoints cfg) \<and>
   length ey = nat (Npoints cfg)"
  by (auto simp add: sample_generator_draws split: if_splits)

lemma sample_cyclic_3:
  "sample_generator cyclic_gauss \<lparr> Nexp = 1, Npoints = 3, alpha0 = 1, alpha1 = 2, sigmay = 1 \<rparr> 0 =
     Inr (([1, 2, 3], [2, 5, 8], [1, 1, 1]), 3)"
  by code_simp

section \<open>Degrees of freedom\<close>

text \<open>
  Claim C7: for a dataset of \<open>N\<close> observations fitted with the two-parameter line, the
  number of degrees of freedom reported is exactly \<open>N - 2\<close>. Here the dataset is any that
  the generator produces, \<open>N\<close> is the length of its \<open>x\<close>, and the evaluation is with any
  parameters \<open>a0\<close>, \<open>a1\<close>: it raises no error and its \<open>Ndof_calc\<close> is \<open>N - 2\<close>.
\<close>

theorem ndof_is_points_minus_two:
  "sample_generator gauss cfg st = Inr ((x, y, ey), st1) \<Longrightarrow>
   \<exists>c. goodness_of_fit sf x y ey a0 a1 (Npoints cfg) =
          Inr \<lparr> Chi2_calc = c, Ndof_calc = int (length x) - 2,
                Prob_calc = sf c (int (length x) - 2) \<rparr>"
proof -
  assume g: "sample_generator gauss cfg st = Inr ((x, y, ey), st1)"
  from sample_generator_lengths [OF g] have
    n: "0 \<le> Npoints cfg" and lx: "length x = nat (Npoints cfg)" and
    ly: "length y = nat (Npoints cfg)" and le: "length ey = nat (Npoints cfg)"
    by simp_all
  from n lx have "int (length x) = Npoints cfg"
    by simp
  with goodness_of_fit_total [OF lx ly le, of sf a0 a1] show ?thesis
    by simp
qed

theorem ndof_is_points_minus_two_witness:
  "sample_generator cyclic_gauss \<lparr> Nexp = 1, Npoints = 3, alpha0 = 1, alpha1 = 2, sigmay = 1 \<rparr> 0 =
     Inr (([1, 2, 3], [2, 5, 8], [1, 1, 1]), 3) \<and>
   (\<exists>c. goodness_of_fit sf_stub [1, 2, 3] [2, 5, 8] [1, 1, 1] (Fin 0) (Fin 3) 3 =
          Inr \<lparr> Chi2_calc = c, Ndof_calc = 1, Prob_calc = sf_stub c 1 \<rparr>)"
  using ndof_is_points_minus_two [OF sample_cyclic_3, of sf_stub "Fin 0" "Fin 3"] sample_cyclic_3
  by simp

section \<open>The uncertainties do not depend on the observations\<close>

lemma fit_sigma_only_x:
  "analytical_fit x y1 sg = Inr f1 \<Longrightarrow> analytical_fit x y2 sg = Inr f2 \<Longrightarrow>
   sigma_alpha0_calc f1 = sigma_alpha0_calc f2 \<and> sigma_alpha1_calc f1 = sigma_alpha1_calc f2"
  by (auto simp add: analytical_fit_def Let_def split: sum.splits)

text \<open>
  A pass of the loop prints at most one line, and the uncertainties on it are those of a fit
  on the abscissas \<open>1, \<dots>, Npoints\<close> with the \<open>\<sigma>\<^sub>y\<close> of the settings.
\<close>

lemma one_experiment_printed:
  assumes "one_experiment gauss sf cfg iexp (b, st) = Inr (b1, st1)"
  shows "\<exists>y f p. analytical_fit (arange1 (Npoints cfg)) y (sigmay cfg) = Inr f \<and>
           printed b1 =
             (if iexp < 10
              then printed b @ [\<lparr> rep_a0 = alpha0_calc f,
                                   rep_sigma_a0 = sigma_alpha0_calc f,
                                   rep_a1 = alpha1_calc f,
                                   rep_sigma_a1 = sigma_alpha1_calc f,
                                   rep_p = p \<rparr>]
              else printed b)"
proof -
  from assms obtain x y ey st2 where
    gen: "sample_generator gauss cfg st = Inr ((x, y, ey), st2)"
    by (cases "sample_generator gauss cfg st") (auto simp add: one_experiment_def)
  then have x: "x = arange1 (Npoints cfg)"
    by (auto simp add: sample_generator_draws split: if_splits)
  from assms gen obtain f where
    fit: "analytical_fit x y (sigmay cfg) = Inr f"
    by (cases "analytical_fit x y (sigmay cfg)") (auto simp add: one_experiment_def)
  from assms gen fit obtain g where
    gof: "goodness_of_fit sf x y ey (alpha0_calc f) (alpha1_calc f) (Npoints cfg) = Inr g"
    by (cases "goodness_of_fit sf x y ey (alpha0_calc f) (alpha1_calc f) (Npoints cfg)")
       (auto simp add: one_experiment_def)
  from assms gen fit gof have
    "printed b1 =
       (if iexp < 10
        then printed b @ [\<lparr> rep_a0 = alpha0_calc f, rep_sigma_a0 = sigma_alpha0_calc f,
                             rep_a1 = alpha1_calc f, rep_sigma_a1 = sigma_alpha1_calc f,
                             rep_p = Prob_calc g \<rparr>]
        else printed b)"
    by (auto simp add: one_experiment_def np_set_def split: if_splits)
  with fit x show ?thesis
    by blast
qed

lemma experiment_loop_printed:
  assumes "experiment_loop gauss sf cfg js (b, st) = Inr (b1, st1)"
    and "\<forall>l\<in>set (printed b). \<exists>y f. analytical_fit (arange1 (Npoints cfg)) y (sigmay cfg) = Inr f \<and>
            rep_sigma_a0 l = sigma_alpha0_calc f \<and> rep_sigma_a1 l = sigma_alpha1_calc f"
  shows "\<forall>l\<in>set (printed b1). \<exists>y f. analytical_fit (arange1 (Npoints cfg)) y (sigmay cfg) = Inr f \<and>
            rep_sigma_a0 l = sigma_alpha0_calc f \<and> rep_sigma_a1 l = sigma_alpha1_calc f"
  using assms
proof (induction js arbitrary: b st)
  case Nil
  then show ?case by simp
next
  case (Cons iexp rest)
  from Cons.prems(1) obtain b2 st2 where
    one: "one_experiment gauss sf cfg iexp (b, st) = Inr (b2, st2)" and
    rest: "experiment_loop gauss sf cfg rest (b2, st2) = Inr (b1, st1)"
    by (auto simp add: seq_def split: sum.splits)
  from one_experiment_printed [OF one] obtain y f p where
    fit: "analytical_fit (arange1 (Npoints cfg)) y (sigmay cfg) = Inr f" and
    pr: "printed b2 =
           (if iexp < 10
            then printed b @ [\<lparr> rep_a0 = alpha0_calc f, rep_sigma_a0 = sigma_alpha0_calc f,
                                 rep_a1 = alpha1_calc f, rep_sigma_a1 = sigma_alpha1_calc f,
                                 rep_p = p \<rparr>]
            else printed b)"
    by blast
  have "\<forall>l\<in>set (printed b2). \<exists>y f. analytical_fit (arange1 (Npoints cfg)) y (sigmay cfg) = Inr f \<and>
            rep_sigma_a0 l = sigma_alpha0_calc f \<and> rep_sigma_a1 l = sigma_alpha1_calc f"
  proof
    fix l
    assume "l \<in> set (printed b2)"
    then consider "l \<in> set (printed b)"
      | "l = \<lparr> rep_a0 = alpha0_calc f, rep_sigma_a0 = sigma_alpha0_calc f,
               rep_a1 = alpha1_calc f, rep_sigma_a1 = sigma_alpha1_calc f, rep_p = p \<rparr>"
      unfolding pr by (auto split: if_splits)
    then show "\<exists>y f. analytical_fit (arange1 (Npoints cfg)) y (sigmay cfg) = Inr f \<and>
            rep_sigma_a0 l = sigma_alpha0_calc f \<and> rep_sigma_a1 l = sigma_alpha1_calc f"
    proof cases
      case 1
      with Cons.prems(2) show ?thesis
        by blast
    next
      case 2
      with fit show ?thesis
        by auto
    qed
  qed
  from Cons.IH [OF rest this] show ?case .
qed

text \<open>So all the lines that a run prints carry the same two uncertainties.\<close>

lemma printed_uncertainties_agree:
  assumes run: "experiment_repeater gauss sf cfg st = Inr (b, st1)"
    and l1: "l1 \<in> set (printed b)" and l2: "l2 \<in> set (printed b)"
  shows "rep_sigma_a0 l1 = rep_sigma_a0 l2 \<and> rep_sigma_a1 l1 = rep_sigma_a1 l2"
proof -
  from run have "\<forall>l\<in>set (printed b). \<exists>y f. analytical_fit (arange1 (Npoints cfg)) y (sigmay cfg) = Inr f \<and>
            rep_sigma_a0 l = sigma_alpha0_calc f \<and> rep_sigma_a1 l = sigma_alpha1_calc f"
    by (intro experiment_loop_printed [of gauss sf cfg "[0..<nat (Nexp cfg)]"
          "\<lparr> array_alpha0 = replicate (nat (Nexp cfg)) (Fin 0),
            array_alpha1 = replicate (nat (Nexp cfg)) (Fin 0),
            array_Chi2 = replicate (nat (Nexp cfg)) (Fin 0),
            array_Prob = replicate (nat (Nexp cfg)) (Fin 0), printed = [] \<rparr>" st b st1])
       (simp_all add: experiment_repeater_def Let_def split: if_splits)
  with l1 l2 obtain y1 f1 y2 f2 where
    "analytical_fit (arange1 (Npoints cfg)) y1 (sigmay cfg) = Inr f1"
    "rep_sigma_a0 l1 = sigma_alpha0_calc f1" "rep_sigma_a1 l1 = sigma_alpha1_calc f1"
    "analytical_fit (arange1 (Npoints cfg)) y2 (sigmay cfg) = Inr f2"
    "rep_sigma_a0 l2 = sigma_alpha0_calc f2" "rep_sigma_a1 l2 = sigma_alpha1_calc f2"
    by blast
  with fit_sigma_only_x [of "arange1 (Npoints cfg)" y1 "sigmay cfg" f1 y2 f2] show ?thesis
    by simp
qed

text \<open>
  Claim C10: the uncertainties \<open>\<sigma>\<^sub>\<alpha>\<^sub>0\<close> and \<open>\<sigma>\<^sub>\<alpha>\<^sub>1\<close> that the fit returns depend on the
  abscissas, on their number and on \<open>\<sigma>\<^sub>y\<close> only, not on the observed \<open>y\<close>: two datasets on
  the same \<open>x\<close> with the same \<open>\<sigma>\<^sub>y\<close> get the same two uncertainties, whatever their \<open>y\<close>.
  (For the lines a whole run prints, this is \<open>printed_uncertainties_agree\<close>.)
\<close>

theorem uncertainties_independent_of_y:
  "length y1 = length x \<Longrightarrow> length y2 = length x \<Longrightarrow>
   \<exists>f1 f2. analytical_fit x y1 sg = Inr f1 \<and> analytical_fit x y2 sg = Inr f2 \<and>
           sigma_alpha0_calc f1 = sigma_alpha0_calc f2 \<and>
           sigma_alpha1_calc f1 = sigma_alpha1_calc f2"
  by (simp add: analytical_fit_def np_mul_def Let_def)

theorem uncertainties_independent_of_y_witness:
  "length [2 :: real, 5, 8] = length [1 :: i64, 2, 3] \<and>
   length [0 :: real, 0, 1] = length [1 :: i64, 2, 3] \<and>
   (\<exists>f1 f2. analytical_fit [1, 2, 3] [2, 5, 8] 1 = Inr f1 \<and>
            analytical_fit [1, 2, 3] [0, 0, 1] 1 = Inr f2 \<and>
            sigma_alpha0_calc f1 = sigma_alpha0_calc f2 \<and>
            sigma_alpha1_calc f1 = sigma_alpha1_calc f2)"
  using uncertainties_independent_of_y [of "[2, 5, 8]" "[1, 2, 3]" "[0, 0, 1]" 1]
  by simp

section \<open>Determinism\<close>

text \<open>
  One pass of the loop reads the generator through its next \<open>Npoints\<close> draws only, and
  leaves it advanced by that many draws.
\<close>

lemma one_experiment_draws:
  "draws g1 s1 (nat (Npoints cfg)) = draws g2 s2 (nat (Npoints cfg)) \<Longrightarrow>
   (\<exists>e. one_experiment g1 sf cfg iexp (b, s1) = Inl e \<and>
        one_experiment g2 sf cfg iexp (b, s2) = Inl e) \<or>
   (\<exists>b'. one_experiment g1 sf cfg iexp (b, s1) = Inr (b', advance g1 s1 (nat (Npoints cfg))) \<and>
         one_experiment g2 sf cfg iexp (b, s2) = Inr (b', advance g2 s2 (nat (Npoints cfg))))"
  by (simp add: one_experiment_def sample_generator_draws seq_def split: sum.splits)

lemma experiment_loop_draws:
  "draws g1 s1 (length js * nat (Npoints cfg)) = draws g2 s2 (length js * nat (Npoints cfg)) \<Longrightarrow>
   map_sum id fst (experiment_loop g1 sf cfg js (b, s1)) =
   map_sum id fst (experiment_loop g2 sf cfg js (b, s2))"
proof (induction js arbitrary: b s1 s2)
  case Nil
  then show ?case
    by simp
next
  case (Cons iexp rest)
  let ?n = "nat (Npoints cfg)"
  from Cons.prems have
    "draws g1 s1 ?n @ draws g1 (advance g1 s1 ?n) (length rest * ?n) =
     draws g2 s2 ?n @ draws g2 (advance g2 s2 ?n) (length rest * ?n)"
    by (simp add: draws_add)
  then have first: "draws g1 s1 ?n = draws g2 s2 ?n"
    and later: "draws g1 (advance g1 s1 ?n) (length rest * ?n) =
                draws g2 (advance g2 s2 ?n) (length rest * ?n)"
    by simp_all
  from one_experiment_draws [OF first, of sf iexp b] show ?case
  proof (elim disjE exE conjE)
    fix e
    assume "one_experiment g1 sf cfg iexp (b, s1) = Inl e"
      "one_experiment g2 sf cfg iexp (b, s2) = Inl e"
    then show ?thesis
      by simp
  next
    fix b'
    assume "one_experiment g1 sf cfg iexp (b, s1) = Inr (b', advance g1 s1 ?n)"
      "one_experiment g2 sf cfg iexp (b, s2) = Inr (b', advance g2 s2 ?n)"
    then show ?thesis
      using Cons.IH [OF later, of b'] by simp
  qed
qed

text \<open>
  Claim C8: two runs of the whole cell with the same settings, from the same seed and
  drawing in the same order, fill the four arrays identically. Here a run starts from a
  state of its generator (what seeding leaves), and the outcome of a run is its error or
  the batch it has filled. Two runs have the same outcome as soon as their generators
  yield the same first \<open>Nexp * Npoints\<close> draws from their starting states; two runs from
  the same state of the same generator are the case \<open>g1 = g2\<close>, \<open>s1 = s2\<close>.
\<close>

theorem same_draws_same_batch:
  "draws g1 s1 (nat (Nexp cfg) * nat (Npoints cfg)) =
   draws g2 s2 (nat (Nexp cfg) * nat (Npoints cfg)) \<Longrightarrow>
   map_sum id fst (experiment_repeater g1 sf cfg s1) =
   map_sum id fst (experiment_repeater g2 sf cfg s2)"
  using experiment_loop_draws [of g1 s1 "[0..<nat (Nexp cfg)]" cfg g2 s2 sf]
  by (simp add: experiment_repeater_def Let_def)

lemma draws_cyclic_period:
  "draws cyclic_gauss 0 (nat 2 * nat 3) = draws cyclic_gauss 3 (nat 2 * nat 3)"
  by code_simp

text \<open>Two runs whose generators start in different states but yield the same six draws.\<close>

theorem same_draws_same_batch_witness:
  "draws cyclic_gauss 0 (nat 2 * nat 3) = draws cyclic_gauss 3 (nat 2 * nat 3) \<and>
   map_sum id fst (experiment_repeater cyclic_gauss sf_stub
      \<lparr> Nexp = 2, Npoints = 3, alpha0 = 1, alpha1 = 2, sigmay = 1 \<rparr> 0) =
   map_sum id fst (experiment_repeater cyclic_gauss sf_stub
      \<lparr> Nexp = 2, Npoints = 3, alpha0 = 1, alpha1 = 2, sigmay = 1 \<rparr> 3)"
  using same_draws_same_batch [of cyclic_gauss 0
      "\<lparr> Nexp = 2, Npoints = 3, alpha0 = 1, alpha1 = 2, sigmay = 1 \<rparr>" cyclic_gauss 3 sf_stub]
    draws_cyclic_period
  by simp

section \<open>The sums over the abscissas, in the integers\<close>

lemma tri_closed: "2 * tri n = n * (n + 1)"
  by (induction n) (simp_all add: tri_def)

lemma pyr_closed: "6 * pyr n = n * (n + 1) * (2 * n + 1)"
  by (induction n) (simp_all add: pyr_def algebra_simps)

lemma disc_closed: "12 * disc n = int n * int n * (int n * int n - 1)"
proof -
  have t: "2 * int (tri n) = int n * (int n + 1)"
  proof -
    have "int (2 * tri n) = int (n * (n + 1))"
      by (simp only: tri_closed)
    then show ?thesis
      by (simp add: algebra_simps)
  qed
  have p: "6 * int (pyr n) = int n * (int n + 1) * (2 * int n + 1)"
  proof -
    have "int (6 * pyr n) = int (n * (n + 1) * (2 * n + 1))"
      by (simp only: pyr_closed)
    then show ?thesis
      by (simp add: algebra_simps)
  qed
  have "12 * disc n = 2 * (6 * int (pyr n)) * int n - 3 * ((2 * int (tri n)) * (2 * int (tri n)))"
    by (simp add: disc_def algebra_simps)
  also have "\<dots> = int n * int n * (int n * int n - 1)"
    unfolding t p by (simp add: algebra_simps)
  finally show ?thesis .
qed

lemma disc_div: "disc n = (int n)\<^sup>2 * ((int n)\<^sup>2 - 1) div 12"
  using disc_closed [of n] by (simp add: power2_eq_square)

lemma tri_mono: "m \<le> n \<Longrightarrow> tri m \<le> tri n"
proof -
  assume "m \<le> n"
  then have "m * (m + 1) \<le> n * (n + 1)"
    by (intro mult_mono) simp_all
  then show ?thesis
    using tri_closed [of m] tri_closed [of n] by linarith
qed

lemma pyr_mono: "m \<le> n \<Longrightarrow> pyr m \<le> pyr n"
proof -
  assume "m \<le> n"
  then have "m * (m + 1) * (2 * m + 1) \<le> n * (n + 1) * (2 * n + 1)"
    by (intro mult_mono) simp_all
  then show ?thesis
    using pyr_closed [of m] pyr_closed [of n] by linarith
qed

lemma disc_nonneg: "0 \<le> disc n"
proof -
  have "0 \<le> int n * int n * (int n * int n - 1)"
    by (cases "n = 0") (simp_all add: mult_le_cancel_left1)
  then show ?thesis
    using disc_closed [of n] by linarith
qed

lemma disc_pos: "2 \<le> n \<Longrightarrow> 0 < disc n"
proof -
  assume "2 \<le> n"
  then have "1 < int n * int n"
    by (simp add: less_1_mult)
  then have "0 < int n * int n * (int n * int n - 1)"
    by simp
  then show ?thesis
    using disc_closed [of n] by linarith
qed

lemma disc_mono: "m \<le> n \<Longrightarrow> disc m \<le> disc n"
proof -
  assume mn: "m \<le> n"
  have sq: "int m * int m \<le> int n * int n"
    using mn by (intro mult_mono) simp_all
  have "int m * int m * (int m * int m - 1) \<le> int n * int n * (int n * int n - 1)"
  proof (cases "m = 0")
    case True
    then show ?thesis
      using disc_nonneg [of n] disc_closed [of n] by simp
  next
    case False
    then have "0 \<le> int m * int m - 1"
      by (simp add: mult_le_cancel_left1)
    then show ?thesis
      using sq mult_mono [of "int m * int m" "int n * int n" "int m * int m - 1" "int n * int n - 1"]
      by linarith
  qed
  then show ?thesis
    using disc_closed [of m] disc_closed [of n] by linarith
qed

text \<open>
  \<open>disc n\<close> stays below \<open>2\<^sup>6\<^sup>3\<close> up to \<open>n = 102569\<close>; from \<open>n = 102570\<close> on it does not.
\<close>

lemma disc_102569: "disc 102569 = 9223234260060704780"
  using disc_closed [of 102569] by simp

lemma disc_102570: "disc 102570 = 9223593954281950425"
  using disc_closed [of 102570] by simp

lemma disc_110000: "disc 110000 = 12200833332325000000"
  using disc_closed [of 110000] by simp

lemma tri_110000: "tri 110000 = 6050055000"
  using tri_closed [of 110000] by simp

lemma pyr_110000: "pyr 110000 = 443672716685000"
  using pyr_closed [of 110000] by simp

lemma pyr_2000000: "pyr 2000000 = 2666668666667000000"
  using pyr_closed [of 2000000] by simp

lemma sums_in_range: "n \<le> 2000000 \<Longrightarrow> tri n < 2 ^ 63 \<and> pyr n < 2 ^ 63 \<and> n < 2 ^ 63"
proof -
  assume n: "n \<le> 2000000"
  from pyr_mono [OF n] have p: "pyr n \<le> 2666668666667000000"
    by (simp add: pyr_2000000)
  have "tri n \<le> pyr n"
    unfolding tri_def pyr_def by (rule sum_list_mono) simp
  with p n show ?thesis
    by simp
qed

lemma disc_in_range: "n \<le> 102569 \<Longrightarrow> disc n < 2 ^ 63"
proof -
  assume "n \<le> 102569"
  from disc_mono [OF this] show ?thesis
    by (simp add: disc_102569)
qed

section \<open>The same sums in 64 bits\<close>

lemma sum_list_of_nat: "sum_list (map of_nat ns) = (of_nat (sum_list ns) :: 'a::semiring_1)"
  by (induction ns) simp_all

lemma arange1_nat: "arange1 (int n) = map (\<lambda>i. word_of_nat (Suc i)) [0..<n]"
  by (simp add: arange1_def)

lemma sx_arange1: "np_sum_int (arange1 (int n)) = word_of_nat (tri n)"
proof -
  have "arange1 (int n) = map of_nat (map Suc [0..<n])"
    by (simp add: arange1_nat)
  then show ?thesis
    by (simp only: np_sum_int_def sum_list_of_nat tri_def)
qed

lemma sxx_arange1: "np_sum_int (np_square_int (arange1 (int n))) = word_of_nat (pyr n)"
proof -
  have "np_square_int (arange1 (int n)) = map of_nat (map (\<lambda>i. Suc i * Suc i) [0..<n])"
    by (simp only: arange1_nat np_square_int_def map_map comp_def of_nat_mult)
  then show ?thesis
    by (simp only: np_sum_int_def sum_list_of_nat pyr_def)
qed

lemma Delta_arange1:
  "word_of_nat (pyr n) * word_of_nat n - word_of_nat (tri n) * word_of_nat (tri n) =
     (word_of_int (disc n) :: i64)"
  by (simp add: disc_def)

lemma sint_of_int_in_range:
  "- (2 ^ 63) \<le> k \<Longrightarrow> k < 2 ^ 63 \<Longrightarrow> sint (word_of_int k :: i64) = k"
  by (simp add: sint_sbintrunc' signed_take_bit_int_eq_self)

lemma to_float_of_int:
  "- (2 ^ 63) \<le> k \<Longrightarrow> k < 2 ^ 63 \<Longrightarrow> to_float (word_of_int k) = real_of_int k"
  unfolding to_float_def by (simp only: sint_of_int_in_range)

lemma to_float_of_nat: "k < 2 ^ 63 \<Longrightarrow> to_float (word_of_nat k) = real k"
  using to_float_of_int [of "int k"] by simp

lemma to_float_arange1: "n < 2 ^ 63 \<Longrightarrow> map to_float (arange1 (int n)) = grid n"
  by (simp add: arange1_nat grid_def to_float_of_nat del: of_nat_Suc)

lemma sum_list_grid: "sum_list (grid n) = real (tri n)"
proof -
  have "grid n = map of_nat (map Suc [0..<n])"
    by (simp add: grid_def)
  then show ?thesis
    by (simp only: sum_list_of_nat tri_def)
qed

lemma sum_list_grid_sq: "sum_list (map (\<lambda>v. v\<^sup>2) (grid n)) = real (pyr n)"
proof -
  have "map (\<lambda>v. v\<^sup>2) (grid n) = map of_nat (map (\<lambda>i. Suc i * Suc i) [0..<n])"
    by (simp only: grid_def map_map comp_def of_nat_mult power2_eq_square)
  then show ?thesis
    by (simp only: sum_list_of_nat pyr_def)
qed

lemma map2_to_float:
  "map2 (\<lambda>a b. to_float a * b) x y = map2 (\<lambda>v w. v * w) (map to_float x) y"
  by (simp add: zip_map1 case_prod_beta)

text \<open>The fit on the abscissas 1..n, while the sums of x and of x squared fit in 64 bits.\<close>

lemma analytical_fit_arange1:
  assumes n: "n \<le> 2000000" and y: "length y = n"
  shows "analytical_fit (arange1 (int n)) y sg =
     Inr \<lparr> Delta = word_of_int (disc n),
           alpha0_calc =
             fl_div (Fin (sum_list y * real (pyr n)
                          - sum_list (map2 (\<lambda>v w. v * w) (grid n) y) * real (tri n)))
                    (Fin (to_float (word_of_int (disc n)))),
           alpha1_calc =
             fl_div (Fin (sum_list (map2 (\<lambda>v w. v * w) (grid n) y) * real n
                          - sum_list y * real (tri n)))
                    (Fin (to_float (word_of_int (disc n)))),
           sigma_alpha0_calc =
             fl_mul (Fin sg) (fl_sqrt (fl_div (Fin (real (pyr n)))
                                              (Fin (to_float (word_of_int (disc n)))))),
           sigma_alpha1_calc =
             fl_mul (Fin sg) (fl_sqrt (fl_div (Fin (real n))
                                              (Fin (to_float (word_of_int (disc n)))))) \<rparr>"
proof -
  from sums_in_range [OF n] have r: "tri n < 2 ^ 63" "pyr n < 2 ^ 63" "n < 2 ^ 63"
    by simp_all
  have m: "np_mul (arange1 (int n)) y = Inr (map2 (\<lambda>v w. v * w) (grid n) y)"
    using y r by (simp add: np_mul_def map2_to_float to_float_arange1)
  show ?thesis
    unfolding analytical_fit_def Let_def m sum.case length_arange1 nat_int
      sx_arange1 sxx_arange1 Delta_arange1 np_sum_def
    using r by (simp only: to_float_of_nat)
qed

section \<open>The fit while the discriminant fits in 64 bits\<close>

lemma Delta_exact:
  assumes "2 \<le> n" and "n \<le> 102569"
  shows "to_float (word_of_int (disc n)) = real_of_int (disc n)" and "0 < disc n"
    and "sint (word_of_int (disc n) :: i64) = disc n"
proof -
  show pos: "0 < disc n"
    using assms(1) by (rule disc_pos)
  from disc_in_range [OF assms(2)] pos show "to_float (word_of_int (disc n)) = real_of_int (disc n)"
    by (intro to_float_of_int) simp_all
  from disc_in_range [OF assms(2)] pos show "sint (word_of_int (disc n) :: i64) = disc n"
    by (intro sint_of_int_in_range) simp_all
qed

lemma analytical_fit_in_range:
  assumes n2: "2 \<le> n" and n: "n \<le> 102569" and y: "length y = n"
  shows "analytical_fit (arange1 (int n)) y sg =
     Inr \<lparr> Delta = word_of_int (disc n),
           alpha0_calc =
             Fin ((sum_list y * real (pyr n)
                   - sum_list (map2 (\<lambda>v w. v * w) (grid n) y) * real (tri n)) / real_of_int (disc n)),
           alpha1_calc =
             Fin ((sum_list (map2 (\<lambda>v w. v * w) (grid n) y) * real n
                   - sum_list y * real (tri n)) / real_of_int (disc n)),
           sigma_alpha0_calc = Fin (sg * sqrt (real (pyr n) / real_of_int (disc n))),
           sigma_alpha1_calc = Fin (sg * sqrt (real n / real_of_int (disc n))) \<rparr>"
proof -
  from n have "n \<le> 2000000"
    by simp
  note fit = analytical_fit_arange1 [OF this y, of sg]
  from Delta_exact [OF n2 n] have d: "to_float (word_of_int (disc n)) = real_of_int (disc n)"
    and pos: "0 < real_of_int (disc n)"
    by simp_all
  show ?thesis
    unfolding fit d using pos by simp
qed

text \<open>
  Up to 102569 points the discriminant is the integer \<open>N\<^sup>2 (N\<^sup>2 - 1) / 12\<close>, it is positive,
  and all four results are finite.
\<close>

lemma discriminant_positive_in_range:
  assumes n2: "2 \<le> n" and n: "n \<le> 102569" and y: "length y = n"
  shows "\<exists>f. analytical_fit (arange1 (int n)) y sg = Inr f \<and>
             sint (Delta f) = (int n)\<^sup>2 * ((int n)\<^sup>2 - 1) div 12 \<and> 0 < sint (Delta f) \<and>
             is_finite (alpha0_calc f) \<and> is_finite (alpha1_calc f) \<and>
             is_finite (sigma_alpha0_calc f) \<and> is_finite (sigma_alpha1_calc f)"
proof -
  from Delta_exact [OF n2 n] have "sint (word_of_int (disc n) :: i64) = disc n" and "0 < disc n"
    by simp_all
  then show ?thesis
    unfolding analytical_fit_in_range [OF assms] by (simp add: disc_div)
qed

lemma closed_form_fit_grid:
  "length y = n \<Longrightarrow>
   closed_form_fit (grid n) y sg =
     \<lparr> cf_Delta = real_of_int (disc n),
       cf_alpha0 = (sum_list y * real (pyr n)
                    - sum_list (map2 (\<lambda>v w. v * w) (grid n) y) * real (tri n)) / real_of_int (disc n),
       cf_alpha1 = (sum_list (map2 (\<lambda>v w. v * w) (grid n) y) * real n
                    - sum_list y * real (tri n)) / real_of_int (disc n),
       cf_sigma_alpha0 = sg * sqrt (real (pyr n) / real_of_int (disc n)),
       cf_sigma_alpha1 = sg * sqrt (real n / real_of_int (disc n)) \<rparr>"
proof -
  have len: "length (grid n) = n"
    by (simp add: grid_def)
  have d: "real (pyr n) * real n - (real (tri n))\<^sup>2 = real_of_int (disc n)"
    by (simp add: disc_def power2_eq_square)
  show ?thesis
    unfolding closed_form_fit_def Let_def len sum_list_grid sum_list_grid_sq d ..
qed

text \<open>Up to 102569 points the fit returns the values of the closed form.\<close>

lemma fit_is_closed_form_in_range:
  assumes n2: "2 \<le> n" and n: "n \<le> 102569" and y: "length y = n"
  shows "\<exists>f. analytical_fit (arange1 (int n)) y sg = Inr f \<and>
             to_float (Delta f) = cf_Delta (closed_form_fit (grid n) y sg) \<and>
             alpha0_calc f = Fin (cf_alpha0 (closed_form_fit (grid n) y sg)) \<and>
             alpha1_calc f = Fin (cf_alpha1 (closed_form_fit (grid n) y sg)) \<and>
             sigma_alpha0_calc f = Fin (cf_sigma_alpha0 (closed_form_fit (grid n) y sg)) \<and>
             sigma_alpha1_calc f = Fin (cf_sigma_alpha1 (closed_form_fit (grid n) y sg))"
  unfolding analytical_fit_in_range [OF assms] closed_form_fit_grid [OF y]
  using Delta_exact(1) [OF n2 n] by simp

section \<open>Where the discriminant wraps around\<close>

text \<open>The first number of points at which the 64-bit discriminant is not the integer one.\<close>

lemma to_float_disc_102570: "to_float (word_of_int (disc 102570)) = - 9223150119427601191"
  by (simp add: disc_102570 to_float_def)

lemma sum_map2_replicate:
  "length xs = n \<Longrightarrow> sum_list (map2 (\<lambda>v w. v * w) xs (replicate n c)) = sum_list xs * (c :: real)"
  using sum_list_mult_const [of "\<lambda>v. v" c xs]
  by (simp add: zip_replicate2 case_prod_beta comp_def)

lemma to_float_negative: "to_float (- 6245910741384551616) = - 6245910741384551616"
  by (simp add: to_float_def)

lemma to_float_wrapped: "to_float 12200833332325000000 = - 6245910741384551616"
  by (simp add: to_float_def)

lemma word_disc_110000: "(word_of_int (disc 110000) :: i64) = - 6245910741384551616"
  by (simp add: disc_110000)

lemma length_grid [simp]: "length (grid n) = n"
  by (simp add: grid_def)

text \<open>
  Claim C9 says that for every \<open>N \<ge> 2\<close> the discriminant computed on the generated abscissas
  \<open>1, \<dots>, N\<close> equals \<open>N\<^sup>2 (N\<^sup>2 - 1) / 12\<close> and is positive, so that the divisions by it and
  the two square roots are well defined. \<open>discriminant_positive_in_range\<close> proves that for
  \<open>2 \<le> N \<le> 102569\<close>. It fails beyond: \<^verbatim>\<open>sxx * s\<close> and \<^verbatim>\<open>sx**2\<close> are 64-bit products, and
  with \<^verbatim>\<open>Npoints = 110000\<close> the value \<open>12200833332325000000\<close> of \<open>N\<^sup>2 (N\<^sup>2 - 1) / 12\<close> is
  above \<open>2\<^sup>6\<^sup>3\<close>. The notebook's \<^verbatim>\<open>Delta\<close> is then negative, both radicands are negative, and
  both uncertainties are NaN (here for observations that are all zero).
\<close>

theorem discriminant_wraps_at_110000:
  "analytical_fit (arange1 110000) (replicate 110000 0) 1 =
     Inr \<lparr> Delta = - 6245910741384551616, alpha0_calc = Fin 0, alpha1_calc = Fin 0,
           sigma_alpha0_calc = NaN, sigma_alpha1_calc = NaN \<rparr>"
proof -
  have "analytical_fit (arange1 (int 110000)) (replicate 110000 0) 1 =
     Inr \<lparr> Delta = - 6245910741384551616, alpha0_calc = Fin 0, alpha1_calc = Fin 0,
           sigma_alpha0_calc = NaN, sigma_alpha1_calc = NaN \<rparr>"
    by (subst analytical_fit_arange1)
       (simp_all add: sum_map2_replicate sum_list_replicate to_float_negative word_disc_110000
          pyr_110000 tri_110000)
  then show ?thesis
    by simp
qed

text \<open>
  Claim C1 says that for every dataset on the abscissas \<open>1, \<dots>, N\<close> the fit returns exactly
  the closed-form values \<open>\<Delta>\<close>, \<open>\<alpha>\<^sub>0\<close>, \<open>\<alpha>\<^sub>1\<close>, \<open>\<sigma>\<^sub>\<alpha>\<^sub>0\<close>, \<open>\<sigma>\<^sub>\<alpha>\<^sub>1\<close> of the sums.
  \<open>fit_is_closed_form_in_range\<close> proves that for \<open>2 \<le> N \<le> 102569\<close>. With 110000 observations,
  all equal to 1, the fit returns a negative \<^verbatim>\<open>Delta\<close>, a negative intercept and NaN for both
  uncertainties, where the closed form has \<open>\<Delta> = 12200833332325000000\<close>, intercept 1 and
  two positive uncertainties.
\<close>

theorem closed_form_missed_at_110000:
  "analytical_fit (arange1 110000) (replicate 110000 1) 1 =
     Inr \<lparr> Delta = - 6245910741384551616,
           alpha0_calc = Fin (- (12200833332325000000 / 6245910741384551616)),
           alpha1_calc = Fin 0, sigma_alpha0_calc = NaN, sigma_alpha1_calc = NaN \<rparr> \<and>
   closed_form_fit (grid 110000) (replicate 110000 1) 1 =
     \<lparr> cf_Delta = 12200833332325000000, cf_alpha0 = 1, cf_alpha1 = 0,
       cf_sigma_alpha0 = sqrt (443672716685000 / 12200833332325000000),
       cf_sigma_alpha1 = sqrt (110000 / 12200833332325000000) \<rparr>"
proof -
  have "analytical_fit (arange1 (int 110000)) (replicate 110000 1) 1 =
     Inr \<lparr> Delta = - 6245910741384551616,
           alpha0_calc = Fin (- (12200833332325000000 / 6245910741384551616)),
           alpha1_calc = Fin 0, sigma_alpha0_calc = NaN, sigma_alpha1_calc = NaN \<rparr>"
    by (subst analytical_fit_arange1)
       (simp_all add: sum_map2_replicate sum_list_replicate sum_list_grid to_float_negative
          word_disc_110000 pyr_110000 tri_110000)
  moreover have "closed_form_fit (grid 110000) (replicate 110000 1) 1 =
     \<lparr> cf_Delta = 12200833332325000000, cf_alpha0 = 1, cf_alpha1 = 0,
       cf_sigma_alpha0 = sqrt (443672716685000 / 12200833332325000000),
       cf_sigma_alpha1 = sqrt (110000 / 12200833332325000000) \<rparr>"
    by (subst closed_form_fit_grid)
       (simp_all add: sum_map2_replicate sum_list_replicate sum_list_grid disc_110000
          pyr_110000 tri_110000)
  ultimately show ?thesis
    by simp
qed

section \<open>Points exactly on a line\<close>

lemma sum_list_line:
  "sum_list (map (\<lambda>v. a + b * v) xs) = a * real (length xs) + b * sum_list (xs :: real list)"
  by (induction xs) (simp_all add: algebra_simps)

lemma sum_list_x_line:
  "sum_list (map2 (\<lambda>v w. v * w) xs (map (\<lambda>v. a + b * v) xs)) =
     a * sum_list xs + b * sum_list (map (\<lambda>v. v\<^sup>2) (xs :: real list))"
  by (induction xs) (simp_all add: algebra_simps power2_eq_square)

lemma analytical_fit_line:
  assumes n: "n \<le> 2000000"
  shows "analytical_fit (arange1 (int n)) (map (\<lambda>v. a + b * v) (grid n)) sg =
     Inr \<lparr> Delta = word_of_int (disc n),
           alpha0_calc = fl_div (Fin (a * real_of_int (disc n)))
                                (Fin (to_float (word_of_int (disc n)))),
           alpha1_calc = fl_div (Fin (b * real_of_int (disc n)))
                                (Fin (to_float (word_of_int (disc n)))),
           sigma_alpha0_calc =
             fl_mul (Fin sg) (fl_sqrt (fl_div (Fin (real (pyr n)))
                                              (Fin (to_float (word_of_int (disc n)))))),
           sigma_alpha1_calc =
             fl_mul (Fin sg) (fl_sqrt (fl_div (Fin (real n))
                                              (Fin (to_float (word_of_int (disc n)))))) \<rparr>"
proof -
  have len: "length (map (\<lambda>v. a + b * v) (grid n)) = n"
    by simp
  have n0: "(a * real n + b * real (tri n)) * real (pyr n)
             - (a * real (tri n) + b * real (pyr n)) * real (tri n) = a * real_of_int (disc n)"
    by (simp add: disc_def algebra_simps)
  have n1: "(a * real (tri n) + b * real (pyr n)) * real n
             - (a * real n + b * real (tri n)) * real (tri n) = b * real_of_int (disc n)"
    by (simp add: disc_def algebra_simps)
  show ?thesis
    unfolding analytical_fit_arange1 [OF n len] sum_list_line sum_list_x_line
      length_grid sum_list_grid sum_list_grid_sq n0 n1 ..
qed

lemma nth_arange1: "i < n \<Longrightarrow> n < 2 ^ 63 \<Longrightarrow> to_float (arange1 (int n) ! i) = grid n ! i"
proof -
  assume i: "i < n" and n: "n < 2 ^ 63"
  then have "map to_float (arange1 (int n)) ! i = grid n ! i"
    by (simp only: to_float_arange1)
  with i show ?thesis
    by simp
qed

text \<open>
  On the abscissas \<open>1, \<dots>, n\<close> and with one uncertainty for all points, the loop over the
  points computes the objective at the parameters it is given.
\<close>

lemma sum_list_upt_nth:
  "length xs = n \<Longrightarrow> length ys = n \<Longrightarrow>
   sum_list (map (\<lambda>i. f (xs ! i) (ys ! i)) [0..<n]) = (sum_list (map2 f xs ys) :: real)"
proof -
  assume l: "length xs = n" "length ys = n"
  then have "map (\<lambda>i. f (xs ! i) (ys ! i)) [0..<n] = map2 f xs ys"
    by (intro nth_equalityI) simp_all
  then show ?thesis
    by simp
qed

lemma chi2_loop_objective:
  assumes n: "n \<le> 2000000" and y: "length y = n" and sg: "sg \<noteq> 0"
  shows "chi2_loop (arange1 (int n)) y (replicate n sg) (Fin a0) (Fin a1) [0..<n] (Fin 0) =
           Inr (Fin (objective (grid n) y sg a0 a1))"
proof -
  from sums_in_range [OF n] have r: "n < 2 ^ 63"
    by simp
  have "\<forall>i\<in>set [0..<n]. i < length (arange1 (int n)) \<and> i < length y \<and>
          i < length (replicate n sg) \<and> replicate n sg ! i \<noteq> 0"
    using y sg by simp
  from chi2_loop_Fin [OF this, of a0 a1 0]
  have "chi2_loop (arange1 (int n)) y (replicate n sg) (Fin a0) (Fin a1) [0..<n] (Fin 0) =
          Inr (Fin (sum_list (map (\<lambda>i. ((y ! i - (a0 + a1 * to_float (arange1 (int n) ! i)))
                                          / replicate n sg ! i)\<^sup>2) [0..<n])))"
    by simp
  also have "map (\<lambda>i. ((y ! i - (a0 + a1 * to_float (arange1 (int n) ! i)))
                          / replicate n sg ! i)\<^sup>2) [0..<n] =
             map (\<lambda>i. ((y ! i - a0 - a1 * (grid n ! i)) / sg)\<^sup>2) [0..<n]"
    using r by (simp add: nth_arange1 algebra_simps)
  also have "sum_list (map (\<lambda>i. ((y ! i - a0 - a1 * (grid n ! i)) / sg)\<^sup>2) [0..<n]) =
             objective (grid n) y sg a0 a1"
    unfolding objective_def
    using sum_list_upt_nth [of "grid n" n y "\<lambda>v w. ((w - a0 - a1 * v) / sg)\<^sup>2"] y
    by simp
  finally show ?thesis .
qed

lemma objective_on_line: "objective xs (map (\<lambda>v. a + b * v) xs) sg a b = 0"
  unfolding objective_def by (induction xs) simp_all

text \<open>
  Up to 102569 points on a line \<open>a + b x\<close>, the fit returns \<open>a\<close> and \<open>b\<close>, the chi-square is
  zero and the probability is the survival function at zero.
\<close>

lemma zero_noise_recovered_in_range:
  assumes n2: "2 \<le> n" and n: "n \<le> 102569" and sg: "sg \<noteq> 0"
  shows "\<exists>f. analytical_fit (arange1 (int n)) (map (\<lambda>v. a + b * v) (grid n)) sg = Inr f \<and>
             alpha0_calc f = Fin a \<and> alpha1_calc f = Fin b \<and>
             goodness_of_fit sf (arange1 (int n)) (map (\<lambda>v. a + b * v) (grid n)) (replicate n sg)
                 (alpha0_calc f) (alpha1_calc f) (int n) =
               Inr \<lparr> Chi2_calc = Fin 0, Ndof_calc = int n - 2,
                     Prob_calc = sf (Fin 0) (int n - 2) \<rparr>"
proof -
  from n have n': "n \<le> 2000000"
    by simp
  from Delta_exact [OF n2 n] have d: "to_float (word_of_int (disc n)) = real_of_int (disc n)"
    and pos: "real_of_int (disc n) \<noteq> 0"
    by simp_all
  have chi: "chi2_loop (arange1 (int n)) (map (\<lambda>v. a + b * v) (grid n)) (replicate n sg)
               (Fin a) (Fin b) [0..<n] (Fin 0) = Inr (Fin 0)"
    using chi2_loop_objective [OF n' _ sg, of "map (\<lambda>v. a + b * v) (grid n)" a b]
    by (simp add: objective_on_line)
  show ?thesis
    unfolding analytical_fit_line [OF n'] d using pos chi
    by (simp add: goodness_of_fit_def Let_def)
qed

text \<open>
  Claim C6 says that for every \<open>N \<ge> 3\<close> points lying exactly on a line \<open>\<alpha>\<^sub>0 + \<alpha>\<^sub>1 x\<close>, at
  \<open>x = 1, \<dots>, N\<close>, the fit recovers \<open>\<alpha>\<^sub>0\<close> and \<open>\<alpha>\<^sub>1\<close> (within \<open>10\<^sup>-\<^sup>9\<close>), with a chi-square
  of zero. \<open>zero_noise_recovered_in_range\<close> proves an exact recovery for \<open>2 \<le> N \<le> 102569\<close>.
  With 110000 points on the notebook's own line \<open>3.6 + 0.3 x\<close>, the fit returns both
  parameters multiplied by \<open>12200833332325000000 / - 6245910741384551616\<close>, the true
  discriminant over the wrapped one: about \<open>- 7.03\<close> and \<open>- 0.59\<close>.
\<close>

theorem zero_noise_missed_at_110000:
  "map_sum id (\<lambda>f. (alpha0_calc f, alpha1_calc f))
     (analytical_fit (arange1 110000) (map (\<lambda>v. 18 / 5 + 3 / 10 * v) (grid 110000)) 1) =
   Inr (Fin (- (18 / 5 * (12200833332325000000 / 6245910741384551616))),
        Fin (- (3 / 10 * (12200833332325000000 / 6245910741384551616))))"
proof -
  have "analytical_fit (arange1 (int 110000)) (map (\<lambda>v. 18 / 5 + 3 / 10 * v) (grid 110000)) 1 =
     Inr \<lparr> Delta = - 6245910741384551616,
           alpha0_calc = Fin (- (18 / 5 * (12200833332325000000 / 6245910741384551616))),
           alpha1_calc = Fin (- (3 / 10 * (12200833332325000000 / 6245910741384551616))),
           sigma_alpha0_calc = NaN, sigma_alpha1_calc = NaN \<rparr>"
    by (subst analytical_fit_line)
       (simp_all add: to_float_wrapped disc_110000 pyr_110000)
  then show ?thesis
    by simp
qed

section \<open>Least squares\<close>

lemma sum_sq_residuals:
  "length xs = length ys \<Longrightarrow>
   sum_list (map2 (\<lambda>v w. (w - a0 - a1 * v)\<^sup>2) xs ys) =
     sum_list (map (\<lambda>w. w\<^sup>2) ys) - 2 * a0 * sum_list ys
       - 2 * a1 * sum_list (map2 (\<lambda>v w. v * w) xs ys)
       + real (length xs) * a0\<^sup>2 + 2 * a0 * a1 * sum_list xs
       + a1\<^sup>2 * sum_list (map (\<lambda>v. v\<^sup>2) (xs :: real list))"
  by (induction xs ys rule: list_induct2) (simp_all add: algebra_simps power2_eq_square)

lemma sum_sq_line:
  "sum_list (map (\<lambda>v. (d0 + d1 * v)\<^sup>2) xs) =
     real (length xs) * d0\<^sup>2 + 2 * d0 * d1 * sum_list xs
       + d1\<^sup>2 * sum_list (map (\<lambda>v. v\<^sup>2) (xs :: real list))"
  by (induction xs) (simp_all add: algebra_simps power2_eq_square)

lemma objective_scaled:
  "objective xs ys sg a0 a1 = sum_list (map2 (\<lambda>v w. (w - a0 - a1 * v)\<^sup>2) xs ys) / sg\<^sup>2"
proof -
  have "sum_list (map (\<lambda>(v, w). ((w - a0 - a1 * v) / sg)\<^sup>2) zs) =
        sum_list (map (\<lambda>(v, w). (w - a0 - a1 * v)\<^sup>2) zs) / sg\<^sup>2" for zs :: "(real \<times> real) list"
    by (induction zs) (simp_all add: power_divide add_divide_distrib case_prod_beta)
  then show ?thesis
    unfolding objective_def .
qed

lemma quadratic_gap:
  fixes m Sx Sxx Sy Sxy Syy a0 a1 b0 b1 :: real
  assumes "m * b0 + Sx * b1 = Sy" and "Sx * b0 + Sxx * b1 = Sxy"
  shows "(Syy - 2 * a0 * Sy - 2 * a1 * Sxy + m * a0\<^sup>2 + 2 * a0 * a1 * Sx + a1\<^sup>2 * Sxx)
       - (Syy - 2 * b0 * Sy - 2 * b1 * Sxy + m * b0\<^sup>2 + 2 * b0 * b1 * Sx + b1\<^sup>2 * Sxx)
       = m * (a0 - b0)\<^sup>2 + 2 * (a0 - b0) * (a1 - b1) * Sx + (a1 - b1)\<^sup>2 * Sxx"
  unfolding assms [symmetric] by (simp add: algebra_simps power2_eq_square)

lemma normal_equations:
  fixes m Sx Sxx Sy Sxy :: real
  assumes D: "Sxx * m - Sx\<^sup>2 \<noteq> 0"
  shows "m * ((Sy * Sxx - Sxy * Sx) / (Sxx * m - Sx\<^sup>2))
           + Sx * ((Sxy * m - Sy * Sx) / (Sxx * m - Sx\<^sup>2)) = Sy"
    and "Sx * ((Sy * Sxx - Sxy * Sx) / (Sxx * m - Sx\<^sup>2))
           + Sxx * ((Sxy * m - Sy * Sx) / (Sxx * m - Sx\<^sup>2)) = Sxy"
proof -
  define d where "d = Sxx * m - Sx\<^sup>2"
  have d: "d \<noteq> 0"
    using D by (simp add: d_def)
  have e0: "m * (Sy * Sxx - Sxy * Sx) + Sx * (Sxy * m - Sy * Sx) = Sy * d"
    by (simp add: d_def algebra_simps power2_eq_square)
  have "m * ((Sy * Sxx - Sxy * Sx) / d) + Sx * ((Sxy * m - Sy * Sx) / d) =
        (m * (Sy * Sxx - Sxy * Sx) + Sx * (Sxy * m - Sy * Sx)) / d"
    by (simp add: add_divide_distrib)
  also have "\<dots> = Sy"
    unfolding e0 using d by simp
  finally show "m * ((Sy * Sxx - Sxy * Sx) / (Sxx * m - Sx\<^sup>2))
           + Sx * ((Sxy * m - Sy * Sx) / (Sxx * m - Sx\<^sup>2)) = Sy"
    unfolding d_def .
  have e1: "Sx * (Sy * Sxx - Sxy * Sx) + Sxx * (Sxy * m - Sy * Sx) = Sxy * d"
    by (simp add: d_def algebra_simps power2_eq_square)
  have "Sx * ((Sy * Sxx - Sxy * Sx) / d) + Sxx * ((Sxy * m - Sy * Sx) / d) =
        (Sx * (Sy * Sxx - Sxy * Sx) + Sxx * (Sxy * m - Sy * Sx)) / d"
    by (simp add: add_divide_distrib)
  also have "\<dots> = Sxy"
    unfolding e1 using d by simp
  finally show "Sx * ((Sy * Sxx - Sxy * Sx) / (Sxx * m - Sx\<^sup>2))
           + Sxx * ((Sxy * m - Sy * Sx) / (Sxx * m - Sx\<^sup>2)) = Sxy"
    unfolding d_def .
qed

text \<open>The closed form minimises the objective whenever its discriminant is not zero.\<close>

lemma closed_form_minimises:
  assumes len: "length xs = length ys"
    and D: "cf_Delta (closed_form_fit xs ys sg) \<noteq> 0"
  shows "objective xs ys sg (cf_alpha0 (closed_form_fit xs ys sg))
            (cf_alpha1 (closed_form_fit xs ys sg))
         \<le> objective xs ys sg a0 a1"
proof -
  define m where "m = real (length xs)"
  define Sx where "Sx = sum_list xs"
  define Sxx where "Sxx = sum_list (map (\<lambda>v. v\<^sup>2) xs)"
  define Sy where "Sy = sum_list ys"
  define Sxy where "Sxy = sum_list (map2 (\<lambda>v w. v * w) xs ys)"
  define Syy where "Syy = sum_list (map (\<lambda>w. w\<^sup>2) ys)"
  define b0 where "b0 = (Sy * Sxx - Sxy * Sx) / (Sxx * m - Sx\<^sup>2)"
  define b1 where "b1 = (Sxy * m - Sy * Sx) / (Sxx * m - Sx\<^sup>2)"
  have cf: "cf_alpha0 (closed_form_fit xs ys sg) = b0" "cf_alpha1 (closed_form_fit xs ys sg) = b1"
    "cf_Delta (closed_form_fit xs ys sg) = Sxx * m - Sx\<^sup>2"
    by (simp_all add: closed_form_fit_def Let_def b0_def b1_def m_def Sx_def Sxx_def Sy_def Sxy_def)
  from D have D': "Sxx * m - Sx\<^sup>2 \<noteq> 0"
    by (simp add: cf)
  note ne = normal_equations [OF D', of Sy Sxy, folded b0_def b1_def]
  have Q: "sum_list (map2 (\<lambda>v w. (w - c0 - c1 * v)\<^sup>2) xs ys) =
        Syy - 2 * c0 * Sy - 2 * c1 * Sxy + m * c0\<^sup>2 + 2 * c0 * c1 * Sx + c1\<^sup>2 * Sxx" for c0 c1
    unfolding sum_sq_residuals [OF len] m_def Sx_def Sxx_def Sy_def Sxy_def Syy_def ..
  have "sum_list (map2 (\<lambda>v w. (w - a0 - a1 * v)\<^sup>2) xs ys)
          - sum_list (map2 (\<lambda>v w. (w - b0 - b1 * v)\<^sup>2) xs ys)
        = m * (a0 - b0)\<^sup>2 + 2 * (a0 - b0) * (a1 - b1) * Sx + (a1 - b1)\<^sup>2 * Sxx"
    unfolding Q by (rule quadratic_gap [OF ne])
  also have "\<dots> = sum_list (map (\<lambda>v. ((a0 - b0) + (a1 - b1) * v)\<^sup>2) xs)"
    unfolding sum_sq_line m_def Sx_def Sxx_def by simp
  also have "0 \<le> \<dots>"
    by (rule sum_list_nonneg) auto
  finally have "sum_list (map2 (\<lambda>v w. (w - b0 - b1 * v)\<^sup>2) xs ys)
                 \<le> sum_list (map2 (\<lambda>v w. (w - a0 - a1 * v)\<^sup>2) xs ys)"
    by simp
  then show ?thesis
    unfolding cf objective_scaled by (simp add: divide_right_mono)
qed

text \<open>
  Up to 102569 points the parameters the fit returns minimise what the loop over the points
  computes, over all pairs of real parameters.
\<close>

lemma fit_minimises_in_range:
  assumes n2: "2 \<le> n" and n: "n \<le> 102569" and y: "length y = n" and sg: "sg \<noteq> 0"
  shows "\<exists>b0 b1 c. map_sum id (\<lambda>f. (alpha0_calc f, alpha1_calc f))
                     (analytical_fit (arange1 (int n)) y sg) = Inr (Fin b0, Fin b1) \<and>
           chi2_loop (arange1 (int n)) y (replicate n sg) (Fin b0) (Fin b1) [0..<n] (Fin 0) =
             Inr (Fin c) \<and>
           (\<forall>a0 a1. \<exists>c'. chi2_loop (arange1 (int n)) y (replicate n sg) (Fin a0) (Fin a1)
                             [0..<n] (Fin 0) = Inr (Fin c') \<and> c \<le> c')"
proof -
  from n have n': "n \<le> 2000000"
    by simp
  let ?cf = "closed_form_fit (grid n) y sg"
  from fit_is_closed_form_in_range [OF n2 n y, of sg] obtain f where
    f: "analytical_fit (arange1 (int n)) y sg = Inr f" and
    a: "alpha0_calc f = Fin (cf_alpha0 ?cf)" "alpha1_calc f = Fin (cf_alpha1 ?cf)"
    by blast
  from Delta_exact(2) [OF n2 n] have D: "cf_Delta ?cf \<noteq> 0"
    by (simp add: closed_form_fit_grid [OF y])
  have len: "length (grid n) = length y"
    using y by simp
  have "\<exists>c'. chi2_loop (arange1 (int n)) y (replicate n sg) (Fin a0) (Fin a1)
                 [0..<n] (Fin 0) = Inr (Fin c') \<and>
          objective (grid n) y sg (cf_alpha0 ?cf) (cf_alpha1 ?cf) \<le> c'" for a0 a1
    using chi2_loop_objective [OF n' y sg, of a0 a1] closed_form_minimises [OF len D, of a0 a1]
    by simp
  with f a chi2_loop_objective [OF n' y sg, of "cf_alpha0 ?cf" "cf_alpha1 ?cf"] show ?thesis
    by auto
qed

lemma objective_const:
  "length xs = n \<Longrightarrow> objective xs (replicate n c) sg a0 0 = real n * ((c - a0) / sg)\<^sup>2"
  unfolding objective_def
  by (simp add: zip_replicate2 case_prod_beta comp_def map_replicate_const sum_list_replicate)

text \<open>
  Claim C2 says that for every dataset with at least two distinct abscissas and one
  \<open>\<sigma>\<^sub>y\<close> for all points, the pair the fit returns minimises the objective over all real
  pairs. \<open>fit_minimises_in_range\<close> proves that on the abscissas \<open>1, \<dots>, N\<close> for
  \<open>2 \<le> N \<le> 102569\<close>. With 110000 observations, all equal to 2, the objective is zero at
  \<open>(2, 0)\<close>, and the fit returns a negative intercept, where the objective is positive.
\<close>

theorem not_the_minimum_at_110000:
  "map_sum id (\<lambda>f. (alpha0_calc f, alpha1_calc f))
     (analytical_fit (arange1 110000) (replicate 110000 2) 1) =
   Inr (Fin (- (2 * (12200833332325000000 / 6245910741384551616))), Fin 0) \<and>
   objective (grid 110000) (replicate 110000 2) 1 2 0 <
   objective (grid 110000) (replicate 110000 2) 1
     (- (2 * (12200833332325000000 / 6245910741384551616))) 0"
proof -
  have "analytical_fit (arange1 (int 110000)) (replicate 110000 2) 1 =
     Inr \<lparr> Delta = - 6245910741384551616,
           alpha0_calc = Fin (- (2 * (12200833332325000000 / 6245910741384551616))),
           alpha1_calc = Fin 0, sigma_alpha0_calc = NaN, sigma_alpha1_calc = NaN \<rparr>"
    by (subst analytical_fit_arange1)
       (simp_all add: sum_map2_replicate sum_list_replicate sum_list_grid to_float_negative
          word_disc_110000 pyr_110000 tri_110000)
  then show ?thesis
    by (simp add: objective_const)
qed

end
